theory Spec2Isabelle
  imports Complex_Main "HOL-Library.Char_ord" "HOL-Library.List_Lexorder"
    "HOL-Library.AList" "HOL-Library.Multiset"
begin

section \<open>The EcoView history store: values, stores and operations\<close>

text \<open>
  The source is the class \<open>EcoViewDatabase\<close>, an IndexedDB wrapper with a
  localStorage fallback. Analysis records are plain JavaScript objects, so they are
  modelled as association lists from property names to values, in insertion order
  (a name that is an array index is not moved to the front, except in \<open>Object.keys\<close>
  of the counting object, the one place where the order of properties is read).
  Numbers are exact rationals (IEEE rounding and the infinities are left out); \<open>JNaN\<close>
  is the not-a-number value. Array-valued properties are not modelled: no operation of
  the class reads one. Property reads see own properties only.
\<close>

subsection \<open>JavaScript values and operators\<close>

datatype jsval =
    JUndefined
  | JNull
  | JBool bool
  | JNum rat
  | JNaN
  | JStr string
  | JObj "(string \<times> jsval) list"

type_synonym obj = "(string \<times> jsval) list"

text \<open>\<open>a.k\<close> on an object \<open>a\<close>: the value of the property, \<open>undefined\<close> when absent.\<close>

definition propOf :: "obj \<Rightarrow> string \<Rightarrow> jsval" where
  "propOf a k = (case map_of a k of None \<Rightarrow> JUndefined | Some v \<Rightarrow> v)"

text \<open>\<open>v?.k\<close>: short-circuits on \<open>undefined\<close> and \<open>null\<close>; a primitive has no such property.\<close>

fun optChain :: "jsval \<Rightarrow> string \<Rightarrow> jsval" where
  "optChain (JObj a) k = propOf a k"
| "optChain _ k = JUndefined"

text \<open>The object spread \<open>{...a, ...b}\<close>: for every property name of \<open>b\<close> the value
  \<open>b[k]\<close> is defined on a copy of \<open>a\<close>; an existing property keeps its place, a new
  one is appended.\<close>

definition spread :: "obj \<Rightarrow> obj \<Rightarrow> obj" where
  "spread a b = foldl (\<lambda>acc k. AList.update k (propOf b k) acc) a (map fst b)"

fun truthy :: "jsval \<Rightarrow> bool" where
  "truthy JUndefined = False"
| "truthy JNull = False"
| "truthy (JBool b) = b"
| "truthy (JNum n) = (n \<noteq> 0)"
| "truthy JNaN = False"
| "truthy (JStr s) = (s \<noteq> [])"
| "truthy (JObj a) = True"

text \<open>\<open>x || y\<close>\<close>

definition js_or :: "jsval \<Rightarrow> jsval \<Rightarrow> jsval" where
  "js_or x y = (if truthy x then x else y)"

text \<open>
  What the class takes from the browser and does not define itself: date parsing
  (\<open>new Date(s).getTime()\<close>, \<open>None\<close> for an invalid date), the conversions between
  strings and numbers, and JSON. \<open>jsonParse\<close> is \<open>None\<close> where \<open>JSON.parse\<close> throws.
  A payload that parses is taken to be an array of objects, the only kind that the
  class writes; text that parses to anything else is not modelled.
\<close>

record platform =
  dateParse :: "string \<Rightarrow> int option"
  strToNum :: "string \<Rightarrow> rat option"
  numToStr :: "rat \<Rightarrow> string"
  jsonParse :: "string \<Rightarrow> obj list option"
  jsonStringify :: "obj list \<Rightarrow> string"
  jsonPretty :: "obj list \<Rightarrow> string"

fun toPrimitive :: "jsval \<Rightarrow> jsval" where
  "toPrimitive (JObj a) = JStr ''[object Object]''"
| "toPrimitive v = v"

text \<open>\<open>ToNumber\<close>; \<open>None\<close> is NaN.\<close>

fun toNumber :: "platform \<Rightarrow> jsval \<Rightarrow> rat option" where
  "toNumber P JUndefined = None"
| "toNumber P JNull = Some 0"
| "toNumber P (JBool b) = Some (if b then 1 else 0)"
| "toNumber P (JNum n) = Some n"
| "toNumber P JNaN = None"
| "toNumber P (JStr s) = strToNum P s"
| "toNumber P (JObj a) = None"

fun toStr :: "platform \<Rightarrow> jsval \<Rightarrow> string" where
  "toStr P JUndefined = ''undefined''"
| "toStr P JNull = ''null''"
| "toStr P (JBool b) = (if b then ''true'' else ''false'')"
| "toStr P (JNum n) = numToStr P n"
| "toStr P JNaN = ''NaN''"
| "toStr P (JStr s) = s"
| "toStr P (JObj a) = ''[object Object]''"

text \<open>\<open>x < y\<close> as the abstract relational comparison: two strings compare
  lexicographically, anything else numerically; \<open>None\<close> is the undefined result that a
  NaN operand gives.\<close>

definition js_lt :: "platform \<Rightarrow> jsval \<Rightarrow> jsval \<Rightarrow> bool option" where
  "js_lt P x y =
     (case (toPrimitive x, toPrimitive y) of
        (JStr s, JStr t) \<Rightarrow> Some (s < t)
      | (px, py) \<Rightarrow>
          (case (toNumber P px, toNumber P py) of
             (Some a, Some b) \<Rightarrow> Some (a < b)
           | _ \<Rightarrow> None))"

text \<open>\<open>x >= y\<close> and \<open>x <= y\<close>\<close>

definition js_ge :: "platform \<Rightarrow> jsval \<Rightarrow> jsval \<Rightarrow> bool" where
  "js_ge P x y = (js_lt P x y = Some False)"

definition js_le :: "platform \<Rightarrow> jsval \<Rightarrow> jsval \<Rightarrow> bool" where
  "js_le P x y = (js_lt P y x = Some False)"

text \<open>\<open>x === y\<close>; two objects are never the same reference here, since the records
  come out of a store and the filter is the caller's.\<close>

definition strictEq :: "jsval \<Rightarrow> jsval \<Rightarrow> bool" where
  "strictEq x y =
     (case x of
        JObj a \<Rightarrow> False
      | JNaN \<Rightarrow> False
      | _ \<Rightarrow> x = y)"




text \<open>The time value of \<open>new Date(v)\<close>; \<open>None\<close> is an invalid date.\<close>

definition timeClip :: "rat \<Rightarrow> int option" where
  "timeClip n = (if \<bar>n\<bar> \<le> 8640000000000000 then Some (if 0 \<le> n then \<lfloor>n\<rfloor> else \<lceil>n\<rceil>) else None)"

fun dateValue :: "platform \<Rightarrow> jsval \<Rightarrow> int option" where
  "dateValue P JUndefined = None"
| "dateValue P JNull = Some 0"
| "dateValue P (JBool b) = Some (if b then 1 else 0)"
| "dateValue P (JNum n) = timeClip n"
| "dateValue P JNaN = None"
| "dateValue P (JStr s) = dateParse P s"
| "dateValue P (JObj a) = dateParse P ''[object Object]''"

subsection \<open>The filter engine\<close>

text \<open>\<open>applyFilters(analyses, filters)\<close>: five guarded \<open>filter\<close> passes over a copy.\<close>

definition applyFilters :: "platform \<Rightarrow> obj list \<Rightarrow> obj \<Rightarrow> obj list" where
  "applyFilters P analyses filters =
     (let filtered = analyses;
          filtered = (if truthy (propOf filters ''startDate'')
                      then filter (\<lambda>a. js_ge P (propOf a ''date'') (propOf filters ''startDate'')) filtered
                      else filtered);
          filtered = (if truthy (propOf filters ''endDate'')
                      then filter (\<lambda>a. js_le P (propOf a ''date'') (propOf filters ''endDate'')) filtered
                      else filtered);
          filtered = (if truthy (propOf filters ''type'')
                      then filter (\<lambda>a. strictEq (propOf a ''type'') (propOf filters ''type'')) filtered
                      else filtered);
          filtered = (if truthy (propOf filters ''species'')
                      then filter (\<lambda>a. strictEq (propOf a ''species'') (propOf filters ''species'')) filtered
                      else filtered);
          filtered = (if truthy (propOf filters ''minConfidence'')
                      then filter (\<lambda>a. js_ge P (propOf a ''confidence'') (propOf filters ''minConfidence'')) filtered
                      else filtered)
      in filtered)"

subsection \<open>Sorting newest first\<close>

text \<open>
  \<open>Array.prototype.sort\<close> is stable, and a comparator result of NaN counts as \<open>0\<close>.
  The model is the stable insertion sort; for a consistent comparator every conforming
  sort returns the same array.
\<close>

definition sortCompare :: "('a \<Rightarrow> 'a \<Rightarrow> int option) \<Rightarrow> 'a \<Rightarrow> 'a \<Rightarrow> int" where
  "sortCompare cmp x y = (case cmp x y of None \<Rightarrow> 0 | Some v \<Rightarrow> v)"

fun insertSorted :: "('a \<Rightarrow> 'a \<Rightarrow> int option) \<Rightarrow> 'a \<Rightarrow> 'a list \<Rightarrow> 'a list" where
  "insertSorted cmp x [] = [x]"
| "insertSorted cmp x (y # ys) =
     (if sortCompare cmp x y \<le> 0 then x # y # ys else y # insertSorted cmp x ys)"

definition arraySort :: "('a \<Rightarrow> 'a \<Rightarrow> int option) \<Rightarrow> 'a list \<Rightarrow> 'a list" where
  "arraySort cmp xs = foldr (insertSorted cmp) xs []"

text \<open>The comparator \<open>(a, b) => new Date(b.date) - new Date(a.date)\<close>.\<close>

definition newestFirst :: "platform \<Rightarrow> obj \<Rightarrow> obj \<Rightarrow> int option" where
  "newestFirst P a b =
     (case (dateValue P (propOf b ''date''), dateValue P (propOf a ''date'')) of
        (Some tb, Some ta) \<Rightarrow> Some (tb - ta)
      | _ \<Rightarrow> None)"

subsection \<open>Errors\<close>

datatype error =
    TypeError
  | SyntaxError
  | SecurityError
  | DataError
  | ConstraintError
  | RequestError
  | AnalysisNotFound

text \<open>
  \<open>TypeError\<close>: a property read on \<open>null\<close> or \<open>undefined\<close>, a call of something
  that is no function, an iteration over \<open>undefined\<close>. \<open>SyntaxError\<close>: \<open>JSON.parse\<close>.
  \<open>SecurityError\<close>: localStorage cannot be reached. \<open>DataError\<close>: a value that is no
  valid key, thrown by the object store's method itself. \<open>ConstraintError\<close> and
  \<open>RequestError\<close>: a request whose \<open>onerror\<close> fires, for a key that exists already or
  for a reason of the environment. \<open>AnalysisNotFound\<close>: \<open>new Error('Analysis not found')\<close>.
\<close>

subsection \<open>The fallback store: one localStorage entry\<close>

record storage =
  available :: bool
  item :: "string option"

definition getItem :: "storage \<Rightarrow> error + string option" where
  "getItem ls = (if available ls then Inr (item ls) else Inl SecurityError)"

definition setItem :: "storage \<Rightarrow> string \<Rightarrow> error + storage" where
  "setItem ls s = (if available ls then Inr (ls\<lparr>item := Some s\<rparr>) else Inl SecurityError)"

text \<open>\<open>stored ? JSON.parse(stored) : []\<close>: \<open>null\<close> and the empty string are falsy.\<close>

definition parseStored :: "platform \<Rightarrow> string option \<Rightarrow> error + obj list" where
  "parseStored P stored =
     (case stored of
        None \<Rightarrow> Inr []
      | Some s \<Rightarrow>
          if s = [] then Inr []
          else (case jsonParse P s of None \<Rightarrow> Inl SyntaxError | Some xs \<Rightarrow> Inr xs))"

text \<open>The two readings of \<open>new Date().toISOString()\<close> that stamp a new record.\<close>

record stamp =
  createdIso :: string
  updatedIso :: string

definition stamped :: "stamp \<Rightarrow> obj \<Rightarrow> obj" where
  "stamped s a =
     AList.update ''updatedAt'' (JStr (updatedIso s))
       (AList.update ''createdAt'' (JStr (createdIso s)) a)"

text \<open>\<open>addAnalysisToLocalStorage(analysisData)\<close>; \<open>now\<close> is \<open>Date.now()\<close>. Whatever the
  \<open>try\<close> block throws is thrown again.\<close>

definition addAnalysisToLocalStorage ::
  "platform \<Rightarrow> storage \<Rightarrow> int \<Rightarrow> stamp \<Rightarrow> obj \<Rightarrow> (error + jsval) \<times> storage" where
  "addAnalysisToLocalStorage P ls now s analysisData =
     (case getItem ls of
        Inl e \<Rightarrow> (Inl e, ls)
      | Inr stored \<Rightarrow>
          (case parseStored P stored of
             Inl e \<Rightarrow> (Inl e, ls)
           | Inr analyses \<Rightarrow>
               (let analysis = stamped s (spread [(''id'', JNum (of_int now))] analysisData) in
                case setItem ls (jsonStringify P (analyses @ [analysis])) of
                  Inl e \<Rightarrow> (Inl e, ls)
                | Inr ls' \<Rightarrow> (Inr (propOf analysis ''id''), ls'))))"

subsection \<open>Sorting and reading the fallback store\<close>

text \<open>\<open>getAnalysesFromLocalStorage(filters)\<close>: whatever the \<open>try\<close> block throws is
  logged and the empty array is returned.\<close>

definition getAnalysesFromLocalStorage :: "platform \<Rightarrow> storage \<Rightarrow> obj \<Rightarrow> obj list" where
  "getAnalysesFromLocalStorage P ls filters =
     (case getItem ls of
        Inl e \<Rightarrow> []
      | Inr stored \<Rightarrow>
          (case parseStored P stored of
             Inl e \<Rightarrow> []
           | Inr analyses \<Rightarrow> arraySort (newestFirst P) (applyFilters P analyses filters)))"

subsection \<open>The primary store: the object store \<open>analyses\<close>\<close>

text \<open>
  The object store has key path \<open>id\<close> and a key generator. Its records are kept in
  ascending key order, the order in which \<open>getAll()\<close> returns them. A key is a number
  or a string; numbers sort before strings.
\<close>

record idb =
  objects :: "obj list"
  keyGen :: int

fun validKey :: "jsval \<Rightarrow> bool" where
  "validKey (JNum n) = True"
| "validKey (JStr s) = True"
| "validKey _ = False"

fun keyLess :: "jsval \<Rightarrow> jsval \<Rightarrow> bool" where
  "keyLess (JNum a) (JNum b) = (a < b)"
| "keyLess (JNum a) (JStr t) = True"
| "keyLess (JStr s) (JStr t) = (s < t)"
| "keyLess _ _ = False"

definition idbGet :: "idb \<Rightarrow> jsval \<Rightarrow> obj option" where
  "idbGet d k = find (\<lambda>r. propOf r ''id'' = k) (objects d)"

fun insertByKey :: "obj \<Rightarrow> obj list \<Rightarrow> obj list" where
  "insertByKey v [] = [v]"
| "insertByKey v (r # rs) =
     (if keyLess (propOf v ''id'') (propOf r ''id'') then v # r # rs else r # insertByKey v rs)"

definition removeKey :: "jsval \<Rightarrow> obj list \<Rightarrow> obj list" where
  "removeKey k rs = filter (\<lambda>r. propOf r ''id'' \<noteq> k) rs"

text \<open>An explicit numeric key at or above the generator's number moves the generator
  past it.\<close>

definition bumpGen :: "int \<Rightarrow> jsval \<Rightarrow> int" where
  "bumpGen g k =
     (case k of
        JNum n \<Rightarrow> (if of_int g \<le> n then \<lfloor>n\<rfloor> + 1 else g)
      | _ \<Rightarrow> g)"

text \<open>The three ways a call on the object store can end: the method throws, the request
  fires \<open>onerror\<close>, the request fires \<open>onsuccess\<close>.\<close>

datatype 'a request = Throws error | OnError error | OnSuccess 'a

text \<open>\<open>store.add(value)\<close> and \<open>store.put(value)\<close>. The flag \<open>io\<close> says whether the
  environment lets the request through. A value without \<open>id\<close> gets the generator's
  number as its key.\<close>

definition idbAdd :: "bool \<Rightarrow> idb \<Rightarrow> obj \<Rightarrow> (jsval \<times> idb) request" where
  "idbAdd io d v =
     (let given = propOf v ''id'';
          k = (if given = JUndefined then JNum (of_int (keyGen d)) else given);
          v' = (if given = JUndefined then AList.update ''id'' k v else v);
          g = (if given = JUndefined then keyGen d + 1 else bumpGen (keyGen d) k)
      in if \<not> validKey k then Throws DataError
         else if idbGet d k \<noteq> None then OnError ConstraintError
         else if \<not> io then OnError RequestError
         else OnSuccess (k, \<lparr>objects = insertByKey v' (objects d), keyGen = g\<rparr>))"

definition idbPut :: "bool \<Rightarrow> idb \<Rightarrow> obj \<Rightarrow> (jsval \<times> idb) request" where
  "idbPut io d v =
     (let given = propOf v ''id'';
          k = (if given = JUndefined then JNum (of_int (keyGen d)) else given);
          v' = (if given = JUndefined then AList.update ''id'' k v else v);
          g = (if given = JUndefined then keyGen d + 1 else bumpGen (keyGen d) k)
      in if \<not> validKey k then Throws DataError
         else if \<not> io then OnError RequestError
         else OnSuccess (k, \<lparr>objects = insertByKey v' (removeKey k (objects d)), keyGen = g\<rparr>))"

subsection \<open>The facade \<open>EcoViewDatabase\<close>\<close>

text \<open>\<open>db\<close> is \<open>this.db\<close>: \<open>None\<close> is \<open>null\<close>, the value the constructor gives it and
  the value the page's start-up handler gives it again when \<open>init()\<close> fails. An open
  database is taken to be usable: \<open>this.db.transaction(...)\<close> on it does not throw.\<close>

record facade =
  db :: "idb option"
  localStorage :: storage

text \<open>What one call of \<open>addAnalysis\<close> takes from the environment: whether the request
  goes through, the stamps read on the primary path, and \<open>Date.now()\<close> with the stamps
  read on the fallback path.\<close>

record createEnv =
  requestOk :: bool
  primaryStamp :: stamp
  dateNow :: int
  fallbackStamp :: stamp

definition addAnalysis ::
  "platform \<Rightarrow> facade \<Rightarrow> createEnv \<Rightarrow> obj \<Rightarrow> (error + jsval) \<times> facade" where
  "addAnalysis P st e analysisData =
     (case db st of
        None \<Rightarrow>
          (let (r, ls') = addAnalysisToLocalStorage P (localStorage st) (dateNow e)
                            (fallbackStamp e) analysisData
           in (r, st\<lparr>localStorage := ls'\<rparr>))
      | Some d \<Rightarrow>
          (let analysis = stamped (primaryStamp e) (spread [] analysisData) in
           case idbAdd (requestOk e) d analysis of
             Throws err \<Rightarrow> (Inl err, st)
           | OnSuccess (k, d') \<Rightarrow> (Inr k, st\<lparr>db := Some d'\<rparr>)
           | OnError err \<Rightarrow>
               (let (r, ls') = addAnalysisToLocalStorage P (localStorage st) (dateNow e)
                                 (fallbackStamp e) analysis
                in (r, st\<lparr>localStorage := ls'\<rparr>))))"

definition getAnalyses :: "platform \<Rightarrow> facade \<Rightarrow> bool \<Rightarrow> obj \<Rightarrow> error + obj list" where
  "getAnalyses P st io filters =
     (case db st of
        None \<Rightarrow> Inr (getAnalysesFromLocalStorage P (localStorage st) filters)
      | Some d \<Rightarrow>
          if io then Inr (arraySort (newestFirst P) (applyFilters P (objects d) filters))
          else Inr (getAnalysesFromLocalStorage P (localStorage st) filters))"

text \<open>\<open>getAnalysis(id)\<close>: the first statement reads \<open>this.db.transaction\<close>.\<close>

definition getAnalysis :: "facade \<Rightarrow> bool \<Rightarrow> jsval \<Rightarrow> error + jsval" where
  "getAnalysis st io ident =
     (case db st of
        None \<Rightarrow> Inl TypeError
      | Some d \<Rightarrow>
          if \<not> validKey ident then Inl DataError
          else if \<not> io then Inl RequestError
          else Inr (case idbGet d ident of None \<Rightarrow> JUndefined | Some r \<Rightarrow> JObj r))"

text \<open>\<open>updateAnalysis(id, updateData)\<close>; \<open>isoNow\<close> is the reading of
  \<open>new Date().toISOString()\<close>. The result \<open>None\<close> is a promise that never settles:
  \<open>store.put\<close> is called inside the \<open>onsuccess\<close> handler, where nothing catches what it
  throws.\<close>

definition updateAnalysis ::
  "facade \<Rightarrow> bool \<Rightarrow> bool \<Rightarrow> string \<Rightarrow> jsval \<Rightarrow> obj \<Rightarrow> (error + obj) option \<times> facade" where
  "updateAnalysis st ioGet ioPut isoNow ident updateData =
     (case db st of
        None \<Rightarrow> (Some (Inl TypeError), st)
      | Some d \<Rightarrow>
          if \<not> validKey ident then (Some (Inl DataError), st)
          else if \<not> ioGet then (Some (Inl RequestError), st)
          else (case idbGet d ident of
                  None \<Rightarrow> (Some (Inl AnalysisNotFound), st)
                | Some analysis \<Rightarrow>
                    (let updatedAnalysis =
                           AList.update ''updatedAt'' (JStr isoNow) (spread (spread [] analysis) updateData)
                     in case idbPut ioPut d updatedAnalysis of
                          Throws err \<Rightarrow> (None, st)
                        | OnError err \<Rightarrow> (Some (Inl err), st)
                        | OnSuccess (k, d') \<Rightarrow> (Some (Inr updatedAnalysis), st\<lparr>db := Some d'\<rparr>))))"

definition deleteAnalysis :: "facade \<Rightarrow> bool \<Rightarrow> jsval \<Rightarrow> (error + bool) \<times> facade" where
  "deleteAnalysis st io ident =
     (case db st of
        None \<Rightarrow> (Inl TypeError, st)
      | Some d \<Rightarrow>
          if \<not> validKey ident then (Inl DataError, st)
          else if \<not> io then (Inl RequestError, st)
          else (Inr True, st\<lparr>db := Some (d\<lparr>objects := removeKey ident (objects d)\<rparr>)\<rparr>))"

definition clearAllData :: "facade \<Rightarrow> bool \<Rightarrow> (error + bool) \<times> facade" where
  "clearAllData st io =
     (case db st of
        None \<Rightarrow> (Inl TypeError, st)
      | Some d \<Rightarrow>
          if \<not> io then (Inl RequestError, st)
          else (Inr True, st\<lparr>db := Some (d\<lparr>objects := []\<rparr>)\<rparr>))"

subsection \<open>Analytics\<close>





text \<open>\<open>Object.keys\<close>: the keys that are array indices first, in ascending numeric order,
  then the other keys in insertion order.\<close>

definition isDigit :: "char \<Rightarrow> bool" where
  "isDigit c = (CHR ''0'' \<le> c \<and> c \<le> CHR ''9'')"

definition digitsValue :: "string \<Rightarrow> nat" where
  "digitsValue s = foldl (\<lambda>n c. 10 * n + (of_char c - 48)) 0 s"









subsection \<open>Export\<close>

text \<open>\<open>Array.prototype.join\<close>: \<open>undefined\<close> and \<open>null\<close> elements give the empty string.\<close>

fun joinElem :: "platform \<Rightarrow> jsval \<Rightarrow> string" where
  "joinElem P JUndefined = []"
| "joinElem P JNull = []"
| "joinElem P v = toStr P v"

fun joinWith :: "string \<Rightarrow> string list \<Rightarrow> string" where
  "joinWith sep [] = []"
| "joinWith sep [x] = x"
| "joinWith sep (x # y # ys) = x @ sep @ joinWith sep (y # ys)"

definition headers :: "string list" where
  "headers = [''ID'', ''Date'', ''Type'', ''Species'', ''Confidence'', ''Green Cover'',
              ''Tree Count'', ''Created At'']"

definition csvCells :: "obj \<Rightarrow> jsval list" where
  "csvCells a =
     [propOf a ''id'',
      propOf a ''date'',
      propOf a ''type'',
      js_or (propOf a ''species'') (JStr []),
      js_or (propOf a ''confidence'') (JStr []),
      js_or (optChain (propOf a ''metadata'') ''greenCover'') (JStr []),
      js_or (optChain (propOf a ''metadata'') ''treeCount'') (JStr []),
      propOf a ''createdAt'']"

definition csvLine :: "platform \<Rightarrow> obj \<Rightarrow> string" where
  "csvLine P a = joinWith '','' (map (joinElem P) (csvCells a))"

definition exportData :: "platform \<Rightarrow> facade \<Rightarrow> bool \<Rightarrow> string \<Rightarrow> error + string" where
  "exportData P st io format =
     (case getAnalyses P st io [] of
        Inl e \<Rightarrow> Inl e
      | Inr analyses \<Rightarrow>
          if format = ''csv''
          then Inr (joinWith [CHR 0x0A] (joinWith '','' headers # map (csvLine P) analyses))
          else Inr (jsonPretty P analyses))"

subsection \<open>Import\<close>

text \<open>\<open>s.split(c)\<close> for a one-character separator.\<close>

fun splitOn :: "char \<Rightarrow> string \<Rightarrow> string list" where
  "splitOn c [] = [[]]"
| "splitOn c (x # xs) =
     (if x = c then [] # splitOn c xs
      else (case splitOn c xs of
              [] \<Rightarrow> [[x]]
            | w # ws \<Rightarrow> (x # w) # ws))"

text \<open>\<open>header.toLowerCase().replace(/\s+/g, '')\<close>, on ASCII.\<close>

definition toLower :: "char \<Rightarrow> char" where
  "toLower c = (if CHR ''A'' \<le> c \<and> c \<le> CHR ''Z'' then char_of (of_char c + (32::nat)) else c)"

definition isSpace :: "char \<Rightarrow> bool" where
  "isSpace c = (of_char c \<in> {9, 10, 11, 12, 13, 32 :: nat})"

definition headerKey :: "string \<Rightarrow> string" where
  "headerKey header = filter (\<lambda>c. \<not> isSpace c) (map toLower header)"

text \<open>One line of the file as an object: \<open>analysis[key] = values[index]\<close> for every
  header, \<open>undefined\<close> past the end of the line.\<close>

definition csvRecord :: "string list \<Rightarrow> string \<Rightarrow> obj" where
  "csvRecord hs line =
     (let values = splitOn (CHR '','') line
      in foldl (\<lambda>analysis (header, index).
                  AList.update (headerKey header)
                    (if index < length values then JStr (values ! index) else JUndefined)
                    analysis)
           [] (zip hs [0 ..< length hs]))"

text \<open>The first half of \<open>importData\<close>: the whole payload becomes an array. With a
  format that is neither \<open>json\<close> nor \<open>csv\<close> the array stays \<open>undefined\<close> and the loop
  over it throws.\<close>

definition parseImport :: "platform \<Rightarrow> string \<Rightarrow> string \<Rightarrow> error + obj list" where
  "parseImport P payload format =
     (if format = ''json''
      then (case jsonParse P payload of None \<Rightarrow> Inl SyntaxError | Some xs \<Rightarrow> Inr xs)
      else if format = ''csv''
      then (case splitOn (CHR 0x0A) payload of
              [] \<Rightarrow> Inr []
            | l # ls \<Rightarrow> Inr (map (csvRecord (splitOn (CHR '','') l)) ls))
      else Inl TypeError)"

text \<open>The loop \<open>for (const analysis of analyses) { try { await this.addAnalysis(analysis) }
  catch (error) { console.error(...) } }\<close>: the result of each call is dropped, the
  store it leaves is kept. \<open>E i\<close> is the environment of the call for element \<open>i\<close>.\<close>

fun importLoop :: "platform \<Rightarrow> (nat \<Rightarrow> createEnv) \<Rightarrow> nat \<Rightarrow> facade \<Rightarrow> obj list \<Rightarrow> facade" where
  "importLoop P E i st [] = st"
| "importLoop P E i st (a # as) = importLoop P E (Suc i) (snd (addAnalysis P st (E i) a)) as"

definition importData ::
  "platform \<Rightarrow> facade \<Rightarrow> (nat \<Rightarrow> createEnv) \<Rightarrow> string \<Rightarrow> string \<Rightarrow> (error + nat) \<times> facade" where
  "importData P st E payload format =
     (case parseImport P payload format of
        Inl e \<Rightarrow> (Inl e, st)
      | Inr analyses \<Rightarrow> (Inr (length analyses), importLoop P E 0 st analyses))"

subsection \<open>The records a call reads\<close>

text \<open>The array behind one call of \<open>getAnalyses\<close>: the object store when the database is
  open and the request goes through, else the parsed localStorage entry, which counts
  as empty when it cannot be read.\<close>

definition fallbackAnalyses :: "platform \<Rightarrow> storage \<Rightarrow> obj list" where
  "fallbackAnalyses P ls =
     (case getItem ls of
        Inl e \<Rightarrow> []
      | Inr stored \<Rightarrow> (case parseStored P stored of Inl e \<Rightarrow> [] | Inr analyses \<Rightarrow> analyses))"

definition storedAnalyses :: "platform \<Rightarrow> facade \<Rightarrow> bool \<Rightarrow> obj list" where
  "storedAnalyses P st io =
     (case db st of
        None \<Rightarrow> fallbackAnalyses P (localStorage st)
      | Some d \<Rightarrow> if io then objects d else fallbackAnalyses P (localStorage st))"






text \<open>A value that is missing: \<open>undefined\<close> or \<open>null\<close>.\<close>

fun missing :: "jsval \<Rightarrow> bool" where
  "missing JUndefined = True"
| "missing JNull = True"
| "missing _ = False"


text \<open>A fallback store that cannot be read: localStorage is out of reach, or its
  entry is a non-empty text on which \<open>JSON.parse\<close> throws.\<close>

definition unreadable :: "platform \<Rightarrow> storage \<Rightarrow> bool" where
  "unreadable P ls =
     (\<not> available ls
      \<or> (case item ls of None \<Rightarrow> False | Some s \<Rightarrow> s \<noteq> [] \<and> jsonParse P s = None))"

definition unreadableError :: "storage \<Rightarrow> error" where
  "unreadableError ls = (if available ls then SyntaxError else SecurityError)"

subsection \<open>A platform for the worked examples\<close>

text \<open>
  The examples below need a concrete platform. This one says what a browser does on
  the inputs that the examples give it, and nothing about any other input: date-only
  strings \<open>YYYY-MM-DD\<close> of a day that exists (midnight UTC, in milliseconds since
  1970-01-01), strings of decimal digits, numbers with a short decimal expansion, the
  payloads \<open>[]\<close> and \<open>{broken\<close> for \<open>JSON.parse\<close>, and the empty array for
  \<open>JSON.stringify\<close>.
\<close>

definition digitChar :: "int \<Rightarrow> char" where
  "digitChar n = char_of (48 + n)"

fun showDigits :: "nat \<Rightarrow> int \<Rightarrow> string" where
  "showDigits 0 n = []"
| "showDigits (Suc fuel) n =
     (if n < 10 then [digitChar n] else showDigits fuel (n div 10) @ [digitChar (n mod 10)])"

fun fracDigits :: "nat \<Rightarrow> rat \<Rightarrow> string" where
  "fracDigits 0 r = []"
| "fracDigits (Suc fuel) r =
     (if r = 0 then []
      else (let d = \<lfloor>r * 10\<rfloor> in digitChar d # fracDigits fuel (r * 10 - of_int d)))"

definition showNum :: "rat \<Rightarrow> string" where
  "showNum r =
     (let a = \<bar>r\<bar>; w = \<lfloor>a\<rfloor>; f = a - of_int w
      in (if r < 0 then ''-'' else []) @ showDigits 22 w
         @ (if f = 0 then [] else ''.'' @ fracDigits 20 f))"

definition digitsToNum :: "string \<Rightarrow> rat option" where
  "digitsToNum s = (if list_all isDigit s then Some (of_nat (digitsValue s)) else undefined)"

definition daysInMonth :: "nat \<Rightarrow> nat \<Rightarrow> nat" where
  "daysInMonth y m =
     (if m = 2 then (if y mod 4 = 0 \<and> (y mod 100 \<noteq> 0 \<or> y mod 400 = 0) then 29 else 28)
      else if m \<in> {4, 6, 9, 11} then 30 else 31)"

definition daysFromCivil :: "nat \<Rightarrow> nat \<Rightarrow> nat \<Rightarrow> int" where
  "daysFromCivil y m d =
     (let y' = (if m \<le> 2 then int y - 1 else int y);
          era = y' div 400;
          yoe = y' - era * 400;
          doy = (153 * (if 2 < m then int m - 3 else int m + 9) + 2) div 5 + int d - 1;
          doe = yoe * 365 + yoe div 4 - yoe div 100 + doy
      in era * 146097 + doe - 719468)"

definition dateOnly :: "string \<Rightarrow> int option" where
  "dateOnly s =
     (if length s = 10 \<and> s ! 4 = CHR ''-'' \<and> s ! 7 = CHR ''-''
         \<and> list_all isDigit (take 4 s @ take 2 (drop 5 s) @ drop 8 s)
      then (let y = digitsValue (take 4 s);
                m = digitsValue (take 2 (drop 5 s));
                d = digitsValue (drop 8 s)
            in if 1 \<le> m \<and> m \<le> 12 \<and> 1 \<le> d \<and> d \<le> daysInMonth y m
               then Some (86400000 * daysFromCivil y m d)
               else undefined)
      else undefined)"

definition examplePlatform :: platform where
  "examplePlatform =
     \<lparr>dateParse = dateOnly,
      strToNum = digitsToNum,
      numToStr = showNum,
      jsonParse = (\<lambda>s. if s = ''[]'' then Some [] else if s = ''{broken'' then None else undefined),
      jsonStringify = (\<lambda>xs. if xs = [] then ''[]'' else undefined),
      jsonPretty = (\<lambda>xs. if xs = [] then ''[]'' else undefined)\<rparr>"

subsection \<open>The sample data of the start-up handler\<close>

text \<open>The three records that the page's start-up handler writes to an empty
  localStorage when \<open>init()\<close> fails; \<open>now\<close> is \<open>Date.now()\<close> and \<open>isoNow\<close> the reading of
  \<open>new Date().toISOString()\<close>.\<close>

definition sampleOak :: "int \<Rightarrow> string \<Rightarrow> obj" where
  "sampleOak now isoNow =
     [(''id'', JNum (of_int now)),
      (''date'', JStr ''2025-01-15''),
      (''type'', JStr ''species''),
      (''species'', JStr ''Oak''),
      (''confidence'', JNum (85 / 100)),
      (''image'', JStr ''data:image/jpeg;base64,...''),
      (''metadata'', JObj [(''greenCover'', JNum 75), (''treeCount'', JNum 12)]),
      (''createdAt'', JStr isoNow),
      (''updatedAt'', JStr isoNow)]"

definition samplePath :: "int \<Rightarrow> string \<Rightarrow> obj" where
  "samplePath now isoNow =
     [(''id'', JNum (of_int now + 1)),
      (''date'', JStr ''2025-01-14''),
      (''type'', JStr ''path''),
      (''species'', JNull),
      (''confidence'', JNull),
      (''image'', JStr ''data:image/jpeg;base64,...''),
      (''metadata'', JObj [(''pathLength'', JNum 150), (''efficiency'', JNum (92 / 100))]),
      (''createdAt'', JStr isoNow),
      (''updatedAt'', JStr isoNow)]"

definition samplePine :: "int \<Rightarrow> string \<Rightarrow> obj" where
  "samplePine now isoNow =
     [(''id'', JNum (of_int now + 2)),
      (''date'', JStr ''2025-01-13''),
      (''type'', JStr ''species''),
      (''species'', JStr ''Pine''),
      (''confidence'', JNum (92 / 100)),
      (''image'', JStr ''data:image/jpeg;base64,...''),
      (''metadata'', JObj [(''greenCover'', JNum 88), (''treeCount'', JNum 8)]),
      (''createdAt'', JStr isoNow),
      (''updatedAt'', JStr isoNow)]"

definition sampleData :: "int \<Rightarrow> string \<Rightarrow> obj list" where
  "sampleData now isoNow = [sampleOak now isoNow, samplePath now isoNow, samplePine now isoNow]"

text \<open>The same records with the clock stopped at the start of 15 January 2025, and a
  facade whose open database holds them.\<close>

definition oak :: obj where
  "oak = sampleOak 1736899200000 ''2025-01-15T00:00:00.000Z''"

definition path :: obj where
  "path = samplePath 1736899200000 ''2025-01-15T00:00:00.000Z''"

definition pine :: obj where
  "pine = samplePine 1736899200000 ''2025-01-15T00:00:00.000Z''"

definition emptyStorage :: storage where
  "emptyStorage = \<lparr>available = True, item = None\<rparr>"

definition sampleDb :: idb where
  "sampleDb = \<lparr>objects = [oak, path, pine], keyGen = 1736899200003\<rparr>"

definition sampleFacade :: facade where
  "sampleFacade = \<lparr>db = Some sampleDb, localStorage = emptyStorage\<rparr>"

text \<open>A record with confidence \<open>0\<close>, a second Oak and a second Pine, and two more
  stores: one that holds the record with confidence \<open>0\<close>, one in which Oak and Pine
  occur twice each.\<close>

definition zeroRecord :: obj where
  "zeroRecord =
     [(''id'', JNum 7),
      (''date'', JStr ''2025-01-12''),
      (''type'', JStr ''greencover''),
      (''species'', JNull),
      (''confidence'', JNum 0)]"





text \<open>Fallback mode: \<open>db\<close> is \<open>null\<close>. The entry of localStorage is the empty array in
  the first facade and broken text in the second; in the third localStorage is out of
  reach while the database is open and empty.\<close>

definition fallbackFacade :: facade where
  "fallbackFacade = \<lparr>db = None, localStorage = \<lparr>available = True, item = Some ''[]''\<rparr>\<rparr>"

definition corruptStorage :: storage where
  "corruptStorage = \<lparr>available = True, item = Some ''{broken''\<rparr>"

definition corruptFacade :: facade where
  "corruptFacade = \<lparr>db = None, localStorage = corruptStorage\<rparr>"

definition primaryOnlyFacade :: facade where
  "primaryOnlyFacade =
     \<lparr>db = Some \<lparr>objects = [], keyGen = 1\<rparr>,
      localStorage = \<lparr>available = False, item = None\<rparr>\<rparr>"

text \<open>An environment for a batch of creates in which the request for the first
  record fails and every later one goes through.\<close>

definition firstFails :: "nat \<Rightarrow> createEnv" where
  "firstFails i =
     \<lparr>requestOk = (i \<noteq> 0),
      primaryStamp = \<lparr>createdIso = ''2025-01-16T09:00:00.000Z'',
                      updatedIso = ''2025-01-16T09:00:00.000Z''\<rparr>,
      dateNow = 1737018000000,
      fallbackStamp = \<lparr>createdIso = ''2025-01-16T09:00:00.001Z'',
                       updatedIso = ''2025-01-16T09:00:00.001Z''\<rparr>\<rparr>"

text \<open>A CSV file with a header line and two records.\<close>

definition twoLineCsv :: string where
  "twoLineCsv = ''Date,Type'' @ [CHR 0x0A] @ ''2025-01-15,species'' @ [CHR 0x0A] @ ''2025-01-14,path''"

section \<open>Properties\<close>

subsection \<open>Operators on values of the expected type\<close>

lemma js_ge_strings: "js_ge P (JStr d) (JStr s) = (s \<le> d)"
  by (simp add: js_ge_def js_lt_def not_less)

lemma js_le_strings: "js_le P (JStr d) (JStr e) = (d \<le> e)"
  by (simp add: js_le_def js_lt_def not_less)

lemma js_ge_numbers: "js_ge P (JNum c) (JNum m) = (m \<le> c)"
  by (simp add: js_ge_def js_lt_def not_less)

lemma strictEq_strings: "strictEq (JStr x) (JStr y) = (x = y)"
  by (simp add: strictEq_def)

subsection \<open>The filter engine\<close>

text \<open>
  C3, as the code has it. \<open>applyFilters\<close> returns, in the order of its input, exactly the
  records that satisfy every predicate whose filter value is truthy: \<open>date >= startDate\<close>,
  \<open>date <= endDate\<close>, \<open>type === type\<close>, \<open>species === species\<close> and
  \<open>confidence >= minConfidence\<close>. A filter value that is absent or falsy (\<open>undefined\<close>,
  \<open>null\<close>, the empty string, \<open>0\<close>) imposes no constraint. On two strings \<open>>=\<close> and \<open><=\<close>
  are the lexicographic order and \<open>===\<close> is equality; on two numbers \<open>>=\<close> is the
  numeric order.
\<close>

theorem applyFilters_truthy_predicates:
  "applyFilters P analyses filters =
     filter (\<lambda>a.
         (truthy (propOf filters ''startDate'')
            \<longrightarrow> js_ge P (propOf a ''date'') (propOf filters ''startDate''))
       \<and> (truthy (propOf filters ''endDate'')
            \<longrightarrow> js_le P (propOf a ''date'') (propOf filters ''endDate''))
       \<and> (truthy (propOf filters ''type'')
            \<longrightarrow> strictEq (propOf a ''type'') (propOf filters ''type''))
       \<and> (truthy (propOf filters ''species'')
            \<longrightarrow> strictEq (propOf a ''species'') (propOf filters ''species''))
       \<and> (truthy (propOf filters ''minConfidence'')
            \<longrightarrow> js_ge P (propOf a ''confidence'') (propOf filters ''minConfidence'')))
       analyses
   \<and> js_ge P (JStr d) (JStr s) = (s \<le> d)
   \<and> js_le P (JStr d) (JStr e) = (d \<le> e)
   \<and> strictEq (JStr x) (JStr y) = (x = y)
   \<and> js_ge P (JNum c) (JNum m) = (m \<le> c)"
proof -
  have "applyFilters P analyses filters =
     filter (\<lambda>a.
         (truthy (propOf filters ''startDate'')
            \<longrightarrow> js_ge P (propOf a ''date'') (propOf filters ''startDate''))
       \<and> (truthy (propOf filters ''endDate'')
            \<longrightarrow> js_le P (propOf a ''date'') (propOf filters ''endDate''))
       \<and> (truthy (propOf filters ''type'')
            \<longrightarrow> strictEq (propOf a ''type'') (propOf filters ''type''))
       \<and> (truthy (propOf filters ''species'')
            \<longrightarrow> strictEq (propOf a ''species'') (propOf filters ''species''))
       \<and> (truthy (propOf filters ''minConfidence'')
            \<longrightarrow> js_ge P (propOf a ''confidence'') (propOf filters ''minConfidence'')))
       analyses"
    unfolding applyFilters_def Let_def
    by (auto intro!: filter_cong)
  then show ?thesis
    by (simp only: js_ge_strings js_le_strings js_ge_numbers strictEq_strings simp_thms)
qed

theorem applyFilters_truthy_predicates_witness:
  "applyFilters examplePlatform [oak, path, pine]
     [(''startDate'', JStr ''2025-01-14''), (''type'', JStr ''species''),
      (''minConfidence'', JNum (1 / 2))] = [oak]"
  using applyFilters_truthy_predicates [of examplePlatform "[oak, path, pine]"
     "[(''startDate'', JStr ''2025-01-14''), (''type'', JStr ''species''),
       (''minConfidence'', JNum (1 / 2))]"]
  by (simp add: oak_def path_def pine_def sampleOak_def samplePath_def samplePine_def
        propOf_def js_ge_def js_le_def js_lt_def strictEq_def)

text \<open>C3 as stated fails on a filter value that is supplied and falsy: with
  \<open>{type: ''}\<close> no sample record has that type, and every record is returned.\<close>

theorem applyFilters_empty_type_counterexample:
  "applyFilters examplePlatform [oak, path, pine] [(''type'', JStr [])] = [oak, path, pine]
   \<and> filter (\<lambda>a. strictEq (propOf a ''type'') (propOf [(''type'', JStr [])] ''type''))
        [oak, path, pine] = []"
  by (simp add: applyFilters_def oak_def path_def pine_def sampleOak_def samplePath_def
        samplePine_def propOf_def strictEq_def)

subsection \<open>Sorting\<close>



lemma arraySort_Nil: "arraySort cmp [] = []"
  by (simp add: arraySort_def)




subsection \<open>Reading the records\<close>

lemma applyFilters_Nil: "applyFilters P [] filters = []"
  by (simp add: applyFilters_def)



lemma getAnalysesFromLocalStorage_eq:
  "getAnalysesFromLocalStorage P ls filters =
     arraySort (newestFirst P) (applyFilters P (fallbackAnalyses P ls) filters)"
  by (simp add: getAnalysesFromLocalStorage_def fallbackAnalyses_def applyFilters_Nil
      arraySort_Nil split: sum.splits)

lemma getAnalyses_eq:
  "getAnalyses P st io filters =
     Inr (arraySort (newestFirst P) (applyFilters P (storedAnalyses P st io) filters))"
  by (simp add: getAnalyses_def storedAnalyses_def getAnalysesFromLocalStorage_eq
      split: option.splits)



subsection \<open>Analytics\<close>















subsection \<open>The most common species\<close>














subsection \<open>Export\<close>

lemma joinElem_missing: "missing v \<Longrightarrow> joinElem P (js_or v (JStr [])) = []"
  by (cases v) (simp_all add: js_or_def)

text \<open>
  C8, as the code has it. \<open>exportData('csv')\<close> returns the header
  \<open>ID,Date,Type,Species,Confidence,Green Cover,Tree Count,Created At\<close>, with the spaces
  of the source, followed by one line for each record that \<open>getAnalyses()\<close> returns,
  the lines joined by newlines. A line is the eight cells of its record joined by
  commas, and the cell of an optional field that is missing (\<open>species\<close>,
  \<open>confidence\<close>, \<open>metadata.greenCover\<close>, \<open>metadata.treeCount\<close>, or \<open>metadata\<close>
  itself) is empty.
\<close>

theorem exportData_csv_lines:
  "(\<exists>rs. getAnalyses P st io [] = Inr rs
      \<and> exportData P st io ''csv'' =
          Inr (joinWith [CHR 0x0A]
                 (''ID,Date,Type,Species,Confidence,Green Cover,Tree Count,Created At''
                  # map (csvLine P) rs)))
   \<and> csvLine P a = joinWith '','' (map (joinElem P) (csvCells a))
   \<and> length (csvCells a) = 8
   \<and> (missing (propOf a ''species'') \<longrightarrow> map (joinElem P) (csvCells a) ! 3 = [])
   \<and> (missing (propOf a ''confidence'') \<longrightarrow> map (joinElem P) (csvCells a) ! 4 = [])
   \<and> (missing (optChain (propOf a ''metadata'') ''greenCover'')
        \<longrightarrow> map (joinElem P) (csvCells a) ! 5 = [])
   \<and> (missing (optChain (propOf a ''metadata'') ''treeCount'')
        \<longrightarrow> map (joinElem P) (csvCells a) ! 6 = [])
   \<and> (missing (propOf a ''metadata'') \<longrightarrow> optChain (propOf a ''metadata'') ''greenCover'' = JUndefined
        \<and> optChain (propOf a ''metadata'') ''treeCount'' = JUndefined)"
proof -
  have header: "joinWith '','' headers
      = ''ID,Date,Type,Species,Confidence,Green Cover,Tree Count,Created At''"
    by (simp add: headers_def)
  have export: "\<exists>rs. getAnalyses P st io [] = Inr rs
      \<and> exportData P st io ''csv'' =
          Inr (joinWith [CHR 0x0A]
                 (''ID,Date,Type,Species,Confidence,Green Cover,Tree Count,Created At''
                  # map (csvLine P) rs))"
    by (simp add: exportData_def getAnalyses_eq header)
  have cells: "map (joinElem P) (csvCells a) ! 3 = joinElem P (js_or (propOf a ''species'') (JStr []))"
    "map (joinElem P) (csvCells a) ! 4 = joinElem P (js_or (propOf a ''confidence'') (JStr []))"
    "map (joinElem P) (csvCells a) ! 5
       = joinElem P (js_or (optChain (propOf a ''metadata'') ''greenCover'') (JStr []))"
    "map (joinElem P) (csvCells a) ! 6
       = joinElem P (js_or (optChain (propOf a ''metadata'') ''treeCount'') (JStr []))"
    by (simp_all add: csvCells_def)
  have meta: "missing (propOf a ''metadata'') \<longrightarrow> optChain (propOf a ''metadata'') ''greenCover'' = JUndefined
        \<and> optChain (propOf a ''metadata'') ''treeCount'' = JUndefined"
    by (cases "propOf a ''metadata''") simp_all
  show ?thesis
    using export meta
    by (simp add: cells joinElem_missing csvLine_def) (simp add: csvCells_def)
qed

theorem exportData_csv_lines_witness:
  "missing (propOf path ''species'') \<and> missing (propOf path ''confidence'')
   \<and> missing (optChain (propOf path ''metadata'') ''greenCover'')
   \<and> missing (optChain (propOf path ''metadata'') ''treeCount'')
   \<and> csvLine examplePlatform path = ''1736899200001,2025-01-14,path,,,,,2025-01-15T00:00:00.000Z''
   \<and> map (joinElem examplePlatform) (csvCells path) ! 3 = []
   \<and> map (joinElem examplePlatform) (csvCells path) ! 6 = []"
proof -
  have h: "missing (propOf path ''species'')" "missing (propOf path ''confidence'')"
    "missing (optChain (propOf path ''metadata'') ''greenCover'')"
    "missing (optChain (propOf path ''metadata'') ''treeCount'')"
    by code_simp+
  have line: "csvLine examplePlatform path
      = ''1736899200001,2025-01-14,path,,,,,2025-01-15T00:00:00.000Z''"
    by code_simp
  from exportData_csv_lines [of examplePlatform sampleFacade True path] h
  have "map (joinElem examplePlatform) (csvCells path) ! 3 = []"
    "map (joinElem examplePlatform) (csvCells path) ! 6 = []"
    by blast+
  with h line show ?thesis by blast
qed

text \<open>C8 as stated fails on the header: the last three column names are written
  with a space.\<close>

theorem exportData_csv_header_counterexample:
  "exportData examplePlatform sampleFacade True ''csv'' =
     Inr (''ID,Date,Type,Species,Confidence,Green Cover,Tree Count,Created At'' @ [CHR 0x0A]
          @ ''1736899200000,2025-01-15,species,Oak,0.85,75,12,2025-01-15T00:00:00.000Z'' @ [CHR 0x0A]
          @ ''1736899200001,2025-01-14,path,,,,,2025-01-15T00:00:00.000Z'' @ [CHR 0x0A]
          @ ''1736899200002,2025-01-13,species,Pine,0.92,88,8,2025-01-15T00:00:00.000Z'')
   \<and> ''ID,Date,Type,Species,Confidence,Green Cover,Tree Count,Created At''
       \<noteq> ''ID,Date,Type,Species,Confidence,GreenCover,TreeCount,CreatedAt''"
  by code_simp

subsection \<open>A fallback store that cannot be read\<close>

text \<open>
  C9, as the code has it. When localStorage is out of reach or its entry is text on
  which \<open>JSON.parse\<close> throws, a write through \<open>addAnalysisToLocalStorage\<close> throws the
  underlying error again and leaves the store as it was, and in fallback mode
  \<open>addAnalysis\<close> rejects with that error; a read through
  \<open>getAnalysesFromLocalStorage\<close> catches the error and returns the empty array, and in
  fallback mode \<open>getAnalyses\<close> resolves with the empty array.
\<close>

theorem unreadable_fallback_store:
  assumes "unreadable P ls"
  shows "addAnalysisToLocalStorage P ls now s analysisData = (Inl (unreadableError ls), ls)
     \<and> getAnalysesFromLocalStorage P ls filters = []
     \<and> addAnalysis P \<lparr>db = None, localStorage = ls\<rparr> e analysisData
         = (Inl (unreadableError ls), \<lparr>db = None, localStorage = ls\<rparr>)
     \<and> getAnalyses P \<lparr>db = None, localStorage = ls\<rparr> io filters = Inr []"
proof -
  have parse: "available ls \<Longrightarrow> parseStored P (item ls) = Inl SyntaxError"
    using assms by (auto simp: unreadable_def parseStored_def split: option.splits)
  have add: "addAnalysisToLocalStorage P ls now' s' analysisData = (Inl (unreadableError ls), ls)"
    for now' s'
    using parse
    by (cases "available ls")
       (simp_all add: addAnalysisToLocalStorage_def getItem_def unreadableError_def)
  have get: "getAnalysesFromLocalStorage P ls filters = []"
    using parse
    by (cases "available ls") (simp_all add: getAnalysesFromLocalStorage_def getItem_def)
  show ?thesis
    by (simp add: add get addAnalysis_def getAnalyses_def)
qed

theorem unreadable_fallback_store_witness:
  "unreadable examplePlatform corruptStorage
   \<and> addAnalysisToLocalStorage examplePlatform corruptStorage 1737018000000
        (fallbackStamp (firstFails 0)) zeroRecord = (Inl SyntaxError, corruptStorage)
   \<and> getAnalysesFromLocalStorage examplePlatform corruptStorage [] = []"
proof -
  have h: "unreadable examplePlatform corruptStorage"
    by code_simp
  have e: "unreadableError corruptStorage = SyntaxError"
    by code_simp
  from unreadable_fallback_store [OF h, of 1737018000000 "fallbackStamp (firstFails 0)" zeroRecord "[]"]
  show ?thesis
    using h by (simp add: e)
qed

text \<open>C9 as stated fails on reads: with broken text in localStorage the read returns
  the empty array and raises nothing.\<close>

theorem unreadable_read_counterexample:
  "jsonParse examplePlatform ''{broken'' = None
   \<and> item (localStorage corruptFacade) = Some ''{broken''
   \<and> getAnalysesFromLocalStorage examplePlatform (localStorage corruptFacade) [] = []
   \<and> getAnalyses examplePlatform corruptFacade True [] = Inr []"
  by code_simp

subsection \<open>Looking up an id that is absent\<close>

lemma idbGet_removeKey: "idbGet (d\<lparr>objects := removeKey k (objects d)\<rparr>) k = None"
  by (simp add: idbGet_def removeKey_def find_None_iff)

text \<open>
  C2, as the code has it. With the database open and the request going through,
  \<open>getAnalysis(id)\<close> for a key that no record has resolves with \<open>undefined\<close>; it does
  not fail. In particular \<open>deleteAnalysis(id)\<close> resolves with \<open>true\<close>, and
  \<open>getAnalysis(id)\<close> after it resolves with \<open>undefined\<close>.
\<close>

theorem getAnalysis_absent_undefined:
  assumes "db st = Some d" and "validKey ident"
  shows "(idbGet d ident = None \<longrightarrow> getAnalysis st True ident = Inr JUndefined)
     \<and> fst (deleteAnalysis st True ident) = Inr True
     \<and> getAnalysis (snd (deleteAnalysis st True ident)) True ident = Inr JUndefined"
  using assms
  by (simp add: getAnalysis_def deleteAnalysis_def idbGet_removeKey)

theorem getAnalysis_absent_undefined_witness:
  "db sampleFacade = Some sampleDb
   \<and> validKey (JNum 1736899200001)
   \<and> getAnalysis sampleFacade True (JNum 1736899200001) = Inr (JObj path)
   \<and> fst (deleteAnalysis sampleFacade True (JNum 1736899200001)) = Inr True
   \<and> getAnalysis (snd (deleteAnalysis sampleFacade True (JNum 1736899200001))) True
        (JNum 1736899200001) = Inr JUndefined"
proof -
  have h: "db sampleFacade = Some sampleDb"
    by (simp add: sampleFacade_def)
  have k: "validKey (JNum 1736899200001)"
    by simp
  have present: "getAnalysis sampleFacade True (JNum 1736899200001) = Inr (JObj path)"
    by code_simp
  from getAnalysis_absent_undefined [OF h k] h k present show ?thesis
    by blast
qed

text \<open>C2 as stated fails on any absent id: no record of the sample store has the
  id \<open>7\<close>, and the lookup resolves with \<open>undefined\<close>.\<close>

theorem getAnalysis_absent_counterexample:
  "idbGet sampleDb (JNum 7) = None
   \<and> getAnalysis sampleFacade True (JNum 7) = Inr JUndefined"
  by code_simp

subsection \<open>Fallback mode\<close>

text \<open>
  C1 fails in the code. In fallback mode only \<open>addAnalysis\<close> and \<open>getAnalyses\<close> (and
  with it \<open>getAnalytics\<close>) test \<open>this.db\<close> and go to localStorage. \<open>updateAnalysis\<close>,
  \<open>deleteAnalysis\<close>, \<open>getAnalysis\<close> and \<open>clearAllData\<close> start with
  \<open>this.db.transaction\<close> and reject with a TypeError, although localStorage holds a
  valid array.
\<close>

theorem fallback_mode_rejects:
  "db fallbackFacade = None
   \<and> getAnalyses examplePlatform fallbackFacade True [] = Inr []
   \<and> fst (updateAnalysis fallbackFacade True True ''2025-01-16T09:00:00.000Z''
            (JNum 1736899200000) [(''confidence'', JNum (1 / 2))]) = Some (Inl TypeError)
   \<and> fst (deleteAnalysis fallbackFacade True (JNum 1736899200000)) = Inl TypeError
   \<and> getAnalysis fallbackFacade True (JNum 1736899200000) = Inl TypeError
   \<and> fst (clearAllData fallbackFacade True) = Inl TypeError"
  by code_simp

subsection \<open>Updating a record\<close>










subsection \<open>Import\<close>

lemma splitOn_nonempty: "splitOn c s \<noteq> []"
  by (induction s) (simp_all split: list.splits)

lemma importLoop_append:
  "importLoop P E i st (xs @ ys) = importLoop P E (i + length xs) (importLoop P E i st xs) ys"
  by (induction xs arbitrary: i st) simp_all

lemma parseImport_csv:
  "\<exists>analyses. parseImport P payload ''csv'' = Inr analyses
     \<and> Suc (length analyses) = length (splitOn (CHR 0x0A) payload)"
proof (cases "splitOn (CHR 0x0A) payload")
  case Nil
  then show ?thesis using splitOn_nonempty by blast
next
  case (Cons l ls)
  then show ?thesis by (simp add: parseImport_def)
qed

text \<open>
  C7. \<open>importData\<close> first turns the whole payload into an array: if that fails, the
  call fails and no record has been created. Otherwise it returns the length of the
  array, whatever the creates did, and leaves the store that the loop leaves. The loop
  calls \<open>addAnalysis\<close> once for each record, in order, in the store left by the calls
  before it, and goes on with the next record whatever the call returned. A CSV payload
  always parses, to one record for each line after the first.
\<close>

theorem importData_count:
  "(\<forall>e. parseImport P payload format = Inl e
        \<longrightarrow> importData P st E payload format = (Inl e, st))
   \<and> (\<forall>analyses. parseImport P payload format = Inr analyses
        \<longrightarrow> importData P st E payload format
             = (Inr (length analyses), importLoop P E 0 st analyses))
   \<and> importLoop P E i st (xs @ a # ys)
       = importLoop P E (Suc (i + length xs))
           (snd (addAnalysis P (importLoop P E i st xs) (E (i + length xs)) a)) ys
   \<and> (\<exists>analyses. parseImport P payload ''csv'' = Inr analyses
         \<and> Suc (length analyses) = length (splitOn (CHR 0x0A) payload))"
  by (simp add: importData_def importLoop_append parseImport_csv)

theorem importData_count_witness:
  "parseImport examplePlatform twoLineCsv ''csv''
     = Inr [[(''date'', JStr ''2025-01-15''), (''type'', JStr ''species'')],
            [(''date'', JStr ''2025-01-14''), (''type'', JStr ''path'')]]
   \<and> fst (addAnalysis examplePlatform primaryOnlyFacade (firstFails 0)
             [(''date'', JStr ''2025-01-15''), (''type'', JStr ''species'')]) = Inl SecurityError
   \<and> fst (importData examplePlatform primaryOnlyFacade firstFails twoLineCsv ''csv'') = Inr 2
   \<and> map_option objects (db (snd (importData examplePlatform primaryOnlyFacade firstFails
                                       twoLineCsv ''csv'')))
       = Some [[(''date'', JStr ''2025-01-14''), (''type'', JStr ''path''),
                (''createdAt'', JStr ''2025-01-16T09:00:00.000Z''),
                (''updatedAt'', JStr ''2025-01-16T09:00:00.000Z''),
                (''id'', JNum 1)]]
   \<and> parseImport examplePlatform ''{broken'' ''json'' = Inl SyntaxError
   \<and> importData examplePlatform primaryOnlyFacade firstFails ''{broken'' ''json''
       = (Inl SyntaxError, primaryOnlyFacade)"
proof -
  let ?rows = "[[(''date'', JStr ''2025-01-15''), (''type'', JStr ''species'')],
                [(''date'', JStr ''2025-01-14''), (''type'', JStr ''path'')]]"
  have parse: "parseImport examplePlatform twoLineCsv ''csv'' = Inr ?rows"
    by code_simp
  have failed: "fst (addAnalysis examplePlatform primaryOnlyFacade (firstFails 0)
             [(''date'', JStr ''2025-01-15''), (''type'', JStr ''species'')]) = Inl SecurityError"
    by code_simp
  have loop: "map_option objects
        (db (importLoop examplePlatform firstFails 0 primaryOnlyFacade ?rows))
       = Some [[(''date'', JStr ''2025-01-14''), (''type'', JStr ''path''),
                (''createdAt'', JStr ''2025-01-16T09:00:00.000Z''),
                (''updatedAt'', JStr ''2025-01-16T09:00:00.000Z''),
                (''id'', JNum 1)]]"
    by code_simp
  from importData_count [of examplePlatform twoLineCsv "''csv''" primaryOnlyFacade firstFails]
    parse
  have "importData examplePlatform primaryOnlyFacade firstFails twoLineCsv ''csv''
      = (Inr (length ?rows), importLoop examplePlatform firstFails 0 primaryOnlyFacade ?rows)"
    by blast
  moreover have broken: "parseImport examplePlatform ''{broken'' ''json'' = Inl SyntaxError"
    by code_simp
  moreover from importData_count [of examplePlatform "''{broken''" "''json''" primaryOnlyFacade
      firstFails] broken
  have "importData examplePlatform primaryOnlyFacade firstFails ''{broken'' ''json''
      = (Inl SyntaxError, primaryOnlyFacade)"
    by blast
  ultimately show ?thesis
    using parse failed loop by simp
qed

end
